theory Spec2Isabelle
  imports Main "HOL-Library.Sublist" "HOL-Library.Word"
begin

section \<open>JavaScript values\<close>

text \<open>
  The authorizer function is user code: whatever it hands to the completion callback is an
  arbitrary JavaScript value. The values are modelled as finite trees of plain data.
  \<^item> A string is a list of code units; the model covers code units below 256.
  \<^item> A finite number is a safe integer: a sign and a magnitude below \<open>2^53\<close> (so that
    negative zero is a value too). These are numbers of JavaScript as they are, and they
    print in plain decimal. The other numbers are the three non-finite values.
  \<^item> An object is the list of its own enumerable properties, in enumeration order.
  \<^item> A function is user code. The source calls a function of a result in one place only,
    \<open>result.then(onSuccess).catch(onError)\<close>; a function therefore carries what this
    expression makes of the two continuations when the function is the \<open>then\<close> of the
    result: the list of its reactions, in the order in which they happen. A reaction is a
    call of \<open>onSuccess\<close> with a value, a call of \<open>onError\<close> with a value, or an
    exception that the expression throws.
  \<^item> \<open>JError\<close> is an instance of \<open>Error\<close> (its own properties are not enumerable).
  \<^item> \<open>JPromise\<close> is an object with callable \<open>then\<close> and \<open>catch\<close> that settles as
    its argument says.
  Getters, \<open>toJSON\<close> methods and cyclic objects are outside the model.
\<close>

datatype jsnum = Finite bool "53 word" | NaN | PosInfinity | NegInfinity

datatype jsval =
    JUndefined
  | JNull
  | JBool bool
  | JNum jsnum
  | JString string
  | JFunction "reaction list"
  | JError string
  | JArray "jsval list"
  | JObject "(string \<times> jsval) list"
  | JPromise settlement
and settlement =
    Fulfilled jsval
  | Rejected jsval
  | Pending
and reaction =
    Resolve jsval
  | Reject jsval
  | Throw jsval

text \<open>\<open>if (v)\<close>: the falsy values are undefined, null, false, 0, NaN and the empty string.\<close>

fun truthy :: "jsval \<Rightarrow> bool" where
  "truthy JUndefined = False"
| "truthy JNull = False"
| "truthy (JBool b) = b"
| "truthy (JNum (Finite neg m)) = (m \<noteq> 0)"
| "truthy (JNum NaN) = False"
| "truthy (JNum PosInfinity) = True"
| "truthy (JNum NegInfinity) = True"
| "truthy (JString s) = (s \<noteq> [])"
| "truthy (JFunction rs) = True"
| "truthy (JError m) = True"
| "truthy (JArray xs) = True"
| "truthy (JObject ps) = True"
| "truthy (JPromise p) = True"

text \<open>The \<open>typeof\<close> operator.\<close>

fun typeof :: "jsval \<Rightarrow> string" where
  "typeof JUndefined = ''undefined''"
| "typeof JNull = ''object''"
| "typeof (JBool b) = ''boolean''"
| "typeof (JNum n) = ''number''"
| "typeof (JString s) = ''string''"
| "typeof (JFunction rs) = ''function''"
| "typeof (JError m) = ''object''"
| "typeof (JArray xs) = ''object''"
| "typeof (JObject ps) = ''object''"
| "typeof (JPromise p) = ''object''"

text \<open>\<open>v instanceof Error\<close>.\<close>

fun instanceof_Error :: "jsval \<Rightarrow> bool" where
  "instanceof_Error (JError m) = True"
| "instanceof_Error v = False"

subsection \<open>Decimal rendering of numbers\<close>

definition digit_char :: "nat \<Rightarrow> char" where
  "digit_char d = char_of (48 + d)"

fun dec :: "nat \<Rightarrow> string" where
  "dec n = (if n < 10 then [digit_char n] else dec (n div 10) @ [digit_char (n mod 10)])"

declare dec.simps [simp del]

text \<open>
  \<open>String(n)\<close> for a number, as \<open>JSON.stringify\<close> renders the finite ones. A safe
  integer is below \<open>10^21\<close> in magnitude and prints in plain decimal; negative zero
  prints as \<open>0\<close>.
\<close>

fun number_toString :: "jsnum \<Rightarrow> string" where
  "number_toString (Finite neg m) =
     (if neg \<and> m \<noteq> 0 then CHR ''-'' # dec (unat m) else dec (unat m))"
| "number_toString NaN = ''NaN''"
| "number_toString PosInfinity = ''Infinity''"
| "number_toString NegInfinity = ''-Infinity''"

subsection \<open>Property access and enumeration\<close>

text \<open>
  \<open>v[k]\<close> for a value that is neither null nor undefined (on those two the read throws,
  which is written out where the source reads). An index or \<open>length\<close> of an array or a
  string is found (an array has fewer than \<open>2^32\<close> elements and a string fewer than
  \<open>2^53\<close> code units, so the length is a safe integer); the names the source reads
  (\<open>principalId\<close>, \<open>context\<close>, \<open>then\<close>, \<open>catch\<close>) exist on no built-in prototype
  other than the promise's, whose two methods are native code.
\<close>

fun lookup_index :: "'a list \<Rightarrow> string \<Rightarrow> nat \<Rightarrow> 'a option" where
  "lookup_index [] k i = None"
| "lookup_index (x # xs) k i = (if k = dec i then Some x else lookup_index xs k (Suc i))"

fun get_prop :: "jsval \<Rightarrow> string \<Rightarrow> jsval" where
  "get_prop (JObject ps) k = (case map_of ps k of None \<Rightarrow> JUndefined | Some v \<Rightarrow> v)"
| "get_prop (JArray xs) k =
     (if k = ''length'' then JNum (Finite False (of_nat (length xs)))
      else case lookup_index xs k 0 of None \<Rightarrow> JUndefined | Some v \<Rightarrow> v)"
| "get_prop (JString s) k =
     (if k = ''length'' then JNum (Finite False (of_nat (length s)))
      else case lookup_index s k 0 of None \<Rightarrow> JUndefined | Some c \<Rightarrow> JString [c])"
| "get_prop (JPromise p) k = (if k = ''then'' \<or> k = ''catch'' then JFunction [] else JUndefined)"
| "get_prop v k = JUndefined"

text \<open>
  The own enumerable properties that \<open>for (key in v)\<close> visits and that pass the
  \<open>hasOwnProperty\<close> test, in enumeration order.
\<close>

fun index_entries :: "'a list \<Rightarrow> nat \<Rightarrow> (string \<times> 'a) list" where
  "index_entries [] i = []"
| "index_entries (x # xs) i = (dec i, x) # index_entries xs (Suc i)"

fun own_entries :: "jsval \<Rightarrow> (string \<times> jsval) list" where
  "own_entries (JObject ps) = ps"
| "own_entries (JArray xs) = index_entries xs 0"
| "own_entries (JString s) = index_entries (map (\<lambda>c. JString [c]) s) 0"
| "own_entries v = []"

subsection \<open>JSON.stringify\<close>

definition dquote :: char where
  "dquote = CHR 0x22"

definition backslash :: char where
  "backslash = CHR 0x5C"

definition hex_digit :: "nat \<Rightarrow> char" where
  "hex_digit d = (if d < 10 then char_of (48 + d) else char_of (87 + d))"

text \<open>QuoteJSONString, one code unit at a time.\<close>

definition quote_char :: "char \<Rightarrow> string" where
  "quote_char c =
     (if c = dquote then [backslash, dquote]
      else if c = backslash then [backslash, backslash]
      else if c = CHR 0x08 then [backslash, CHR ''b'']
      else if c = CHR 0x0C then [backslash, CHR ''f'']
      else if c = CHR 0x0A then [backslash, CHR ''n'']
      else if c = CHR 0x0D then [backslash, CHR ''r'']
      else if c = CHR 0x09 then [backslash, CHR ''t'']
      else if (of_char c :: nat) < 32
        then [backslash, CHR ''u'', CHR ''0'', CHR ''0'',
              hex_digit (of_char c div 16), hex_digit (of_char c mod 16)]
      else [c])"

definition QuoteJSONString :: "string \<Rightarrow> string" where
  "QuoteJSONString s = dquote # concat (map quote_char s) @ [dquote]"

fun join_comma :: "string list \<Rightarrow> string" where
  "join_comma [] = []"
| "join_comma [x] = x"
| "join_comma (x # y # ys) = x @ CHR '','' # join_comma (y # ys)"

text \<open>
  \<open>JSON.stringify(v)\<close>; \<open>None\<close> is the result \<open>undefined\<close> (for undefined and for a
  function). Inside an array such an element prints as \<open>null\<close>; inside an object the
  property is left out.
\<close>

fun JSON_stringify :: "jsval \<Rightarrow> string option"
  and stringify_elems :: "jsval list \<Rightarrow> string list"
  and stringify_props :: "(string \<times> jsval) list \<Rightarrow> string list" where
  "JSON_stringify JUndefined = None"
| "JSON_stringify (JFunction rs) = None"
| "JSON_stringify JNull = Some ''null''"
| "JSON_stringify (JBool b) = Some (if b then ''true'' else ''false'')"
| "JSON_stringify (JNum (Finite neg m)) = Some (number_toString (Finite neg m))"
| "JSON_stringify (JNum NaN) = Some ''null''"
| "JSON_stringify (JNum PosInfinity) = Some ''null''"
| "JSON_stringify (JNum NegInfinity) = Some ''null''"
| "JSON_stringify (JString s) = Some (QuoteJSONString s)"
| "JSON_stringify (JError m) = Some ''{}''"
| "JSON_stringify (JPromise p) = Some ''{}''"
| "JSON_stringify (JArray xs) = Some (CHR ''['' # join_comma (stringify_elems xs) @ '']'')"
| "JSON_stringify (JObject ps) = Some (CHR ''{'' # join_comma (stringify_props ps) @ ''}'')"
| "stringify_elems [] = []"
| "stringify_elems (v # vs) =
     (case JSON_stringify v of None \<Rightarrow> ''null'' | Some t \<Rightarrow> t) # stringify_elems vs"
| "stringify_props [] = []"
| "stringify_props ((k, v) # ps) =
     (case JSON_stringify v of
        None \<Rightarrow> stringify_props ps
      | Some t \<Rightarrow> (QuoteJSONString k @ CHR '':'' # t) # stringify_props ps)"

subsection \<open>String.prototype.indexOf\<close>

text \<open>\<open>s.indexOf(pat)\<close>: the first position at which \<open>pat\<close> starts in \<open>s\<close>, or \<open>-1\<close>.\<close>

fun indexOf_from :: "string \<Rightarrow> string \<Rightarrow> nat \<Rightarrow> int" where
  "indexOf_from [] pat i = (if pat = [] then int i else - 1)"
| "indexOf_from (c # cs) pat i =
     (if prefix pat (c # cs) then int i else indexOf_from cs pat (Suc i))"

definition indexOf :: "string \<Rightarrow> string \<Rightarrow> int" where
  "indexOf s pat = indexOf_from s pat 0"

text \<open>
  \<open>String(i)\<close> for a position \<open>i\<close> that \<open>indexOf\<close> has found: a position in a string is
  below \<open>2^53\<close>, the bound on the length of a string, and prints in plain decimal.
\<close>

definition index_toString :: "int \<Rightarrow> string" where
  "index_toString i = dec (nat i)"

section \<open>Construction of the authentication scheme\<close>

subsection \<open>The identity-source expression\<close>

text \<open>
  The source matches the identity source against the regular expression
  \<^verbatim>\<open>/^method.request.header.(\w+)$/\<close>. An item of the pattern is a literal character or
  the dot, which stands for any character but a line terminator; \<^verbatim>\<open>\w\<close> is a letter, a
  digit or the underscore; without the \<^verbatim>\<open>m\<close> flag \<^verbatim>\<open>$\<close> is the end of the input.
\<close>

datatype atom = Lit char | Dot

definition line_terminator :: "char \<Rightarrow> bool" where
  "line_terminator c = (c = CHR 0x0A \<or> c = CHR 0x0D)"

definition word_char :: "char \<Rightarrow> bool" where
  "word_char c =
     (let n = (of_char c :: nat)
      in (48 \<le> n \<and> n \<le> 57) \<or> (65 \<le> n \<and> n \<le> 90) \<or> n = 95 \<or> (97 \<le> n \<and> n \<le> 122))"

text \<open>Matching a sequence of items at the start of the input; the result is what is left.\<close>

fun match_atoms :: "atom list \<Rightarrow> string \<Rightarrow> string option" where
  "match_atoms [] s = Some s"
| "match_atoms (a # as) [] = None"
| "match_atoms (Lit c # as) (d # s) = (if c = d then match_atoms as s else None)"
| "match_atoms (Dot # as) (d # s) = (if line_terminator d then None else match_atoms as s)"

definition identitySource_pattern :: "atom list" where
  "identitySource_pattern =
     map Lit ''method'' @ [Dot] @ map Lit ''request'' @ [Dot] @ map Lit ''header'' @ [Dot]"

text \<open>
  \<open>exec\<close> of the regular expression: \<open>None\<close> is the result \<open>null\<close>, \<open>Some g\<close> a match
  array of length two whose element 1, the captured group, is \<open>g\<close>.
\<close>

definition identitySource_exec :: "string \<Rightarrow> string option" where
  "identitySource_exec s =
     (case match_atoms identitySource_pattern s of
        None \<Rightarrow> None
      | Some g \<Rightarrow> if g \<noteq> [] \<and> list_all word_char g then Some g else None)"

definition lower_char :: "char \<Rightarrow> char" where
  "lower_char c =
     (let n = (of_char c :: nat) in if 65 \<le> n \<and> n \<le> 90 then char_of (n + 32) else c)"

definition toLowerCase :: "string \<Rightarrow> string" where
  "toLowerCase s = map lower_char s"

text \<open>
  The grammar as the specification words it: the literal text \<open>method.request.header.\<close>
  followed by a single word token.
\<close>

definition spec_identitySource :: "string \<Rightarrow> bool" where
  "spec_identitySource s =
     (take 22 s = ''method.request.header.'' \<and> drop 22 s \<noteq> [] \<and> list_all word_char (drop 22 s))"

subsection \<open>createAuthScheme\<close>

text \<open>The letter lambda of the source's messages, as its two UTF-8 bytes.\<close>

definition lam :: string where
  "lam = [CHR 0xCE, CHR 0xBB]"

record options =
  stage :: string
  region :: string

record authorizer =
  authorizer_type :: string
  identitySource :: string

text \<open>
  The populated function object. \<open>environment\<close> holds the declared environment as
  \<open>toPlainOrEmptyObject\<close> returns it.
\<close>

record populated =
  authorizer :: authorizer
  environment :: "(string \<times> string) list"

text \<open>\<open>toObjectPopulated\<close> may throw; the thrown value is the left summand.\<close>

record authFun =
  name :: string
  toObjectPopulated :: "options \<Rightarrow> jsval + populated"

text \<open>What the returned closure holds.\<close>

record scheme =
  authFunName :: string
  identityHeader :: string
  populatedAuthFun :: populated
  funRuntime :: string
  funName :: string
  endpointPath :: string
  options :: options

text \<open>
  \<open>createAuthScheme\<close>: the left summand is the value it throws. (The debug line written
  before the error of \<open>toObjectPopulated\<close> is thrown again is left out.)
\<close>

definition createAuthScheme ::
  "authFun \<Rightarrow> string \<Rightarrow> string \<Rightarrow> string \<Rightarrow> options \<Rightarrow> jsval + scheme" where
  "createAuthScheme authFun funRuntime' funName' endpointPath' options' =
     (let authFunName' = name authFun in
      case toObjectPopulated authFun options' of
        Inl err \<Rightarrow> Inl err
      | Inr populatedAuthFun' \<Rightarrow>
          let authorizerOptions = authorizer populatedAuthFun' in
          if authorizer_type authorizerOptions \<noteq> ''TOKEN''
          then Inl (JError (''Authorizer Type must be TOKEN ('' @ lam @ '': '' @ authFunName' @ '')''))
          else
            case identitySource_exec (identitySource authorizerOptions) of
              None \<Rightarrow>
                Inl (JError
                  (''Serverless Offline only supports retrieving tokens from the headers (''
                    @ lam @ '': '' @ authFunName' @ '')''))
            | Some identitySourceMatch \<Rightarrow>
                Inr \<lparr> authFunName = authFunName',
                      identityHeader = toLowerCase identitySourceMatch,
                      populatedAuthFun = populatedAuthFun', funRuntime = funRuntime',
                      funName = funName', endpointPath = endpointPath', options = options' \<rparr>)"

section \<open>authenticate\<close>

subsection \<open>Responses and observable effects\<close>

text \<open>\<open>continueData.credentials\<close>: \<open>cred_context\<close> is the field \<open>context\<close>, \<open>None\<close> when it is not set.\<close>

record credentials =
  user :: jsval
  cred_context :: "jsval option"

text \<open>
  What is handed to the response channel: \<open>reply.continue\<close> with the credentials, or
  \<open>reply\<close> with a Boom error of a status code and a message.
\<close>

datatype response = Continue credentials | Boom nat string

definition Boom_unauthorized :: "string \<Rightarrow> response" where
  "Boom_unauthorized msg = Boom 401 msg"

definition Boom_forbidden :: "string \<Rightarrow> response" where
  "Boom_forbidden msg = Boom 403 msg"

definition Boom_badImplementation :: "string \<Rightarrow> response" where
  "Boom_badImplementation msg = Boom 500 msg"

record auth_event =
  event_type :: string
  authorizationToken :: jsval
  methodArn :: string

text \<open>
  An observable effect: a line on the console, a call of \<open>serverlessLog\<close> (message and
  detail) or of \<open>debugLog\<close>, the reset of the environment variables, the call of the
  handler with the event, a call on the response channel, and an exception that leaves
  the source's code towards its caller (the code that called the completion callback or
  a continuation).
\<close>

datatype effect =
    ConsoleLog string
  | Log string jsval
  | Debug string
  | ResetEnv "(string \<times> string) list" "(string \<times> string) list"
  | Invoke auth_event
  | Reply response
  | Raised jsval

fun replies :: "effect list \<Rightarrow> response list" where
  "replies [] = []"
| "replies (Reply r # es) = r # replies es"
| "replies (e # es) = replies es"

fun raised :: "effect list \<Rightarrow> jsval list" where
  "raised [] = []"
| "raised (Raised x # es) = x # raised es"
| "raised (e # es) = raised es"

subsection \<open>The completion callback\<close>

definition TypeError_indexOf :: jsval where
  "TypeError_indexOf = JError ''TypeError: cannot read property indexOf of undefined''"

definition TypeError_principalId :: jsval where
  "TypeError_principalId = JError ''TypeError: cannot read property principalId of null''"

definition fun_tag :: "scheme \<Rightarrow> string" where
  "fun_tag s = ''('' @ lam @ '': '' @ authFunName s @ '')''"

text \<open>\<open>onError\<close>: log, and reply unauthorized.\<close>

definition onError :: "scheme \<Rightarrow> jsval \<Rightarrow> effect list" where
  "onError s error =
     [Log (''Authorization function returned an error response: '' @ fun_tag s) error,
      Reply (Boom_unauthorized ''Unauthorized'')]"

definition allowedTypes :: "string list" where
  "allowedTypes = [''number'', ''string'', ''boolean'']"

text \<open>
  The loop over the context: the key and the type of the first entry whose type is not
  allowed, at which the loop returns.
\<close>

fun first_disallowed :: "(string \<times> jsval) list \<Rightarrow> (string \<times> string) option" where
  "first_disallowed [] = None"
| "first_disallowed ((key, v) # rest) =
     (let keyType = typeof v
      in if keyType \<notin> set allowedTypes then Some (key, keyType)
         else first_disallowed rest)"

text \<open>
  \<open>onSuccess\<close>. \<open>err\<close> is the callback's error argument, which the log calls pass on.
  The left summand is an exception: \<open>jsonPolicy.indexOf\<close> when \<open>JSON.stringify\<close> gave
  undefined, and \<open>policy.principalId\<close> when the policy is null (undefined does not get that
  far). Nothing has been logged or replied when either is thrown.
\<close>

definition onSuccess :: "scheme \<Rightarrow> jsval \<Rightarrow> jsval \<Rightarrow> jsval + effect list" where
  "onSuccess s err policy =
     (case JSON_stringify policy of
        None \<Rightarrow> Inl TypeError_indexOf
      | Some jsonPolicy \<Rightarrow>
          let invalidSymbolPosition = indexOf jsonPolicy [backslash, dquote] in
          if invalidSymbolPosition \<noteq> - 1 then
            Inr [Log (''Invalid auth data at position ''
                       @ index_toString invalidSymbolPosition @ '': '' @ fun_tag s) err,
                 Reply (Boom_badImplementation
                   (''Invalid auth data at position ''
                     @ index_toString invalidSymbolPosition
                     @ ''. Data: '' @ jsonPolicy))]
          else if policy = JNull then Inl TypeError_principalId
          else if \<not> truthy (get_prop policy ''principalId'') then
            Inr [Log (''Authorization response did not include a principalId: '' @ fun_tag s) err,
                 Reply (Boom_forbidden ''No principalId set on the Response'')]
          else if typeof (get_prop policy ''principalId'') \<noteq> ''string'' then
            Inr [Log (''Authorization response error: principalId can be only a String: ''
                       @ fun_tag s) err,
                 Reply (Boom_badImplementation ''principalId is not a string'')]
          else if truthy (get_prop policy ''context'') then
            (case first_disallowed (own_entries (get_prop policy ''context'')) of
               Some (key, keyType) \<Rightarrow>
                 Inr [Log (''Context key '' @ key @ '' has type '' @ keyType
                            @ '', allowed only (number, string, boolean): '' @ fun_tag s) err,
                      Reply (Boom_badImplementation ''Not allowed context key ${keyType}'')]
             | None \<Rightarrow>
                 Inr [Log (''Authorization function returned a successful response: ''
                            @ fun_tag s) policy,
                      Reply (Continue \<lparr> user = get_prop policy ''principalId'',
                                        cred_context = Some (get_prop policy ''context'') \<rparr>)])
          else
            Inr [Log (''Authorization function returned a successful response: ''
                       @ fun_tag s) policy,
                 Reply (Continue \<lparr> user = get_prop policy ''principalId'', cred_context = None \<rparr>)])"

text \<open>
  What a hand-written thenable makes of the continuations: each reaction calls
  \<open>onSuccess\<close> or \<open>onError\<close>, whose effects follow, or throws. An exception of
  \<open>onSuccess\<close> goes to the user code that called it.
\<close>

fun react :: "scheme \<Rightarrow> jsval \<Rightarrow> reaction list \<Rightarrow> effect list" where
  "react s err [] = []"
| "react s err (Resolve v # rs) =
     (case onSuccess s err v of Inl e \<Rightarrow> [Raised e] | Inr es \<Rightarrow> es) @ react s err rs"
| "react s err (Reject e # rs) = onError s e @ react s err rs"
| "react s err (Throw e # rs) = Raised e # react s err rs"

text \<open>
  \<open>result.then(onSuccess).catch(onError)\<close>. On a promise: a fulfilled promise runs
  \<open>onSuccess\<close>, and an exception of \<open>onSuccess\<close> rejects the chained promise, so that
  \<open>onError\<close> receives it; a rejected promise runs \<open>onError\<close>; a promise that never
  settles runs neither. On any other result the function under \<open>then\<close> is called, which
  is user code: its reactions happen.
\<close>

fun then_catch :: "scheme \<Rightarrow> jsval \<Rightarrow> jsval \<Rightarrow> effect list" where
  "then_catch s err (JPromise (Fulfilled v)) =
     (case onSuccess s err v of Inl e \<Rightarrow> onError s e | Inr es \<Rightarrow> es)"
| "then_catch s err (JPromise (Rejected e)) = onError s e"
| "then_catch s err (JPromise Pending) = []"
| "then_catch s err v =
     (case get_prop v ''then'' of JFunction rs \<Rightarrow> react s err rs | _ \<Rightarrow> [])"

text \<open>The three ways a completion is classified.\<close>

datatype outcome = Error | Deferred | Value

definition promise_like :: "jsval \<Rightarrow> bool" where
  "promise_like result =
     (truthy result \<and> typeof (get_prop result ''then'') = ''function''
        \<and> typeof (get_prop result ''catch'') = ''function'')"

definition classify :: "jsval \<Rightarrow> jsval \<Rightarrow> outcome" where
  "classify err result =
     (if truthy err then Error
      else if promise_like result then Deferred
      else if instanceof_Error result then Error
      else Value)"

text \<open>
  The callback \<open>(err, result) => ...\<close> handed to \<open>createLambdaContext\<close>: the effects of
  one call of it, in the order in which they happen; those of the continuations of a
  deferred result, which happen after the call has returned, are among them. An exception
  of \<open>onSuccess\<close> on the direct path is not caught: it leaves the callback.
\<close>

definition completion :: "scheme \<Rightarrow> jsval \<Rightarrow> jsval \<Rightarrow> effect list" where
  "completion s err result =
     (if truthy err then onError s err
      else if promise_like result then
        Debug ''Auth function returned a promise'' # then_catch s err result
      else if instanceof_Error result then onError s result
      else (case onSuccess s err result of Inl e \<Rightarrow> [Raised e] | Inr es \<Rightarrow> es))"

subsection \<open>The request\<close>

text \<open>
  \<open>headers\<close> is \<open>request.raw.req.headers\<close>: the header values under their lower-cased
  names, read as own properties. (A header name that is also a property of
  \<open>Object.prototype\<close>, such as \<open>constructor\<close>, is outside the model.)
  \<open>request_method\<close> is \<open>request.method\<close>.
\<close>

record request =
  request_method :: string
  path :: string
  headers :: "string \<rightharpoonup> string"

definition authorization_event :: "scheme \<Rightarrow> request \<Rightarrow> auth_event" where
  "authorization_event s request =
     \<lparr> event_type = ''TOKEN'',
       authorizationToken =
         (case headers request (identityHeader s) of None \<Rightarrow> JUndefined | Some v \<Rightarrow> JString v),
       methodArn =
         ''arn:aws:execute-api:'' @ region (options s) @ '':<Account id>:<API id>/''
           @ stage (options s) @ ''/'' @ funName s @ ''/'' @ endpointPath s \<rparr>"

text \<open>
  \<open>createLambdaContext\<close> puts the completion callback into the context that the user
  function receives, and \<open>lambdaContext.done\<close> is handed to it as well. Whatever the user
  function does with them, what \<open>authenticate\<close> sees of it is the calls of the completion
  callback: the user function is modelled by the list of the pairs \<open>(err, result)\<close> with
  which the callback is called for an event, in order.
\<close>

type_synonym handler = "auth_event \<Rightarrow> (jsval \<times> jsval) list"

text \<open>
  The effects of the calls of the callback, call by call. How the effects of different
  calls follow each other in time depends on when the user function makes its calls and
  on when its promises settle (a continuation runs in a later microtask), and is not
  recorded.
\<close>

fun deliver :: "scheme \<Rightarrow> (jsval \<times> jsval) list \<Rightarrow> effect list list" where
  "deliver s [] = []"
| "deliver s ((err, result) # cs) = completion s err result # deliver s cs"

text \<open>
  What a request brings about: the effects of \<open>authenticate\<close> itself, in order; the effects
  of each call of the completion callback, in the order of the calls; and the new value of
  \<open>this.envVars\<close>.
\<close>

record request_outcome =
  effects :: "effect list"
  completions :: "effect list list"
  envVars :: "(string \<times> string) list"

text \<open>The number of responses of a request.\<close>

definition response_count :: "request_outcome \<Rightarrow> nat" where
  "response_count out =
     length (replies (effects out)) + sum_list (map (\<lambda>es. length (replies es)) (completions out))"

text \<open>
  \<open>authenticate\<close>. \<open>createHandler\<close> is the outcome of \<open>functionHelper.createHandler\<close>: the
  handler, or on the left the text of what it threw, which becomes the message of the
  reply. \<open>envVars0\<close> is \<open>this.envVars\<close> before the request.
\<close>

definition authenticate ::
  "scheme \<Rightarrow> string + handler \<Rightarrow> request \<Rightarrow> (string \<times> string) list \<Rightarrow> request_outcome" where
  "authenticate s createHandler request envVars0 =
     (let authorization = headers request (identityHeader s);
          event = authorization_event s request;
          newEnvVars = environment (populatedAuthFun s);
          before =
            [ConsoleLog [],
             Log (''Running Authorization function for '' @ request_method request @ '' ''
                   @ path request @ '' '' @ fun_tag s) JUndefined,
             Debug (''Retrieved '' @ identityHeader s @ '' header ''
                   @ (case authorization of None \<Rightarrow> ''undefined'' | Some v \<Rightarrow> v)),
             ResetEnv envVars0 newEnvVars]
      in case createHandler of
           Inl err \<Rightarrow>
             \<lparr> effects = before @ [Reply (Boom_badImplementation err)], completions = [],
               envVars = newEnvVars \<rparr>
         | Inr handler \<Rightarrow>
             \<lparr> effects = before @ [Invoke event], completions = deliver s (handler event),
               envVars = newEnvVars \<rparr>)"

section \<open>Example inputs\<close>

text \<open>
  An authorizer function \<open>auth\<close> that reads the token from the \<open>Authorization\<close> header, for
  the endpoint \<open>users/{id}\<close> of the function \<open>hello\<close>.
\<close>

definition example_options :: options where
  "example_options = \<lparr> stage = ''dev'', region = ''us-east-1'' \<rparr>"

definition example_populated :: populated where
  "example_populated =
     \<lparr> authorizer =
         \<lparr> authorizer_type = ''TOKEN'',
           identitySource = ''method.request.header.Authorization'' \<rparr>,
       environment = [(''TABLE'', ''users'')] \<rparr>"



definition example_scheme :: scheme where
  "example_scheme =
     \<lparr> authFunName = ''auth'', identityHeader = ''authorization'',
       populatedAuthFun = example_populated, funRuntime = ''nodejs8.10'',
       funName = ''hello'', endpointPath = ''users/{id}'', options = example_options \<rparr>"

text \<open>The same function with the dots of its identity source replaced by dashes.\<close>

definition dashed_populated :: populated where
  "dashed_populated =
     \<lparr> authorizer =
         \<lparr> authorizer_type = ''TOKEN'',
           identitySource = ''method-request-header-Authorization'' \<rparr>,
       environment = [(''TABLE'', ''users'')] \<rparr>"

definition dashed_populate :: "options \<Rightarrow> jsval + populated" where
  "dashed_populate opts = Inr dashed_populated"

definition dashed_authFun :: authFun where
  "dashed_authFun = \<lparr> name = ''auth'', toObjectPopulated = dashed_populate \<rparr>"

text \<open>A request with the header \<open>Authorization: abc123\<close>, and one without it.\<close>

definition example_request :: request where
  "example_request =
     \<lparr> request_method = ''get'', path = ''/users/7'',
       headers = map_of [(''host'', ''localhost:3000''), (''authorization'', ''abc123'')] \<rparr>"


text \<open>Policies: \<open>{ principalId: "user1" }\<close>, \<open>{ principalId: 42 }\<close>, \<open>{}\<close>.\<close>

definition policy_user1 :: jsval where
  "policy_user1 = JObject [(''principalId'', JString ''user1'')]"




text \<open>\<open>{ principalId: "u", context: { bad: {} } }\<close>.\<close>

definition policy_bad_context :: jsval where
  "policy_bad_context =
     JObject [(''principalId'', JString ''u''), (''context'', JObject [(''bad'', JObject [])])]"

text \<open>\<open>{ principalId: 42, note: "a\"b" }\<close>: a quote inside a string, and a number as principal.\<close>

definition policy_escaped :: jsval where
  "policy_escaped =
     JObject [(''principalId'', JNum (Finite False 42)),
              (''note'', JString [CHR ''a'', dquote, CHR ''b''])]"


text \<open>The serializations of the last two policies.\<close>

definition policy_escaped_json :: string where
  "policy_escaped_json =
     ''{'' @ [dquote] @ ''principalId'' @ [dquote] @ '':42,'' @ [dquote] @ ''note'' @ [dquote]
       @ '':'' @ [dquote] @ ''a'' @ [backslash, dquote] @ ''b'' @ [dquote] @ ''}''"


text \<open>A user function that completes twice with the same policy.\<close>

definition twice_handler :: handler where
  "twice_handler event = [(JNull, policy_user1), (JNull, policy_user1)]"

section \<open>Facts about strings and serialization\<close>

lemma indexOf_from_absent: "indexOf_from s pat i = - 1 \<longleftrightarrow> \<not> sublist pat s"
  by (induction s arbitrary: i) (auto simp: sublist_Cons_right)

lemma indexOf_from_found:
  "sublist pat s \<Longrightarrow>
     \<exists>p. indexOf_from s pat i = int (i + p) \<and> prefix pat (drop p s)
        \<and> (\<forall>q<p. \<not> prefix pat (drop q s))"
proof (induction s arbitrary: i)
  case Nil
  then show ?case by simp
next
  case (Cons c cs)
  show ?case
  proof (cases "prefix pat (c # cs)")
    case True
    then have "indexOf_from (c # cs) pat i = int (i + 0) \<and> prefix pat (drop 0 (c # cs))
        \<and> (\<forall>q<0. \<not> prefix pat (drop q (c # cs)))"
      by simp
    then show ?thesis by blast
  next
    case False
    with Cons.prems have "sublist pat cs"
      by (simp add: sublist_Cons_right)
    from Cons.IH [OF this, of "Suc i"] obtain p where
      p: "indexOf_from cs pat (Suc i) = int (Suc i + p)" "prefix pat (drop p cs)"
         "\<forall>q<p. \<not> prefix pat (drop q cs)"
      by blast
    have "\<not> prefix pat (drop q (c # cs))" if "q < Suc p" for q
      using that False p(3) by (cases q) auto
    with False p(1,2) have "indexOf_from (c # cs) pat i = int (i + Suc p)
        \<and> prefix pat (drop (Suc p) (c # cs))
        \<and> (\<forall>q<Suc p. \<not> prefix pat (drop q (c # cs)))"
      by simp
    then show ?thesis by blast
  qed
qed








section \<open>Facts about the completion callback\<close>

lemma completion_Value:
  "classify err r = Value \<Longrightarrow>
     completion s err r = (case onSuccess s err r of Inl e \<Rightarrow> [Raised e] | Inr es \<Rightarrow> es)"
  by (simp add: classify_def completion_def split: if_splits)

lemma completion_Fulfilled:
  "\<not> truthy err \<Longrightarrow>
     completion s err (JPromise (Fulfilled v)) =
       Debug ''Auth function returned a promise''
         # (case onSuccess s err v of Inl e \<Rightarrow> onError s e | Inr es \<Rightarrow> es)"
  by (simp add: completion_def promise_like_def)

lemma onSuccess_one_reply: "onSuccess s err policy = Inr es \<Longrightarrow> length (replies es) = 1"
  by (auto simp: onSuccess_def Let_def split: option.splits if_splits prod.splits)

lemma replies_onError: "replies (onError s e) = [Boom 401 ''Unauthorized'']"
  by (simp add: onError_def Boom_unauthorized_def)

lemma replies_append: "replies (xs @ ys) = replies xs @ replies ys"
  by (induction xs rule: replies.induct) simp_all

lemma deliver_map:
  "deliver s cs = map (\<lambda>(err, result). completion s err result) cs"
  by (induction cs) auto

lemma effects_authenticate:
  "effects (authenticate s (Inr h) rq env) =
     [ConsoleLog [],
      Log (''Running Authorization function for '' @ request_method rq @ '' ''
            @ path rq @ '' '' @ fun_tag s) JUndefined,
      Debug (''Retrieved '' @ identityHeader s @ '' header ''
            @ (case headers rq (identityHeader s) of None \<Rightarrow> ''undefined'' | Some v \<Rightarrow> v)),
      ResetEnv env (environment (populatedAuthFun s)),
      Invoke (authorization_event s rq)]"
  by (simp add: authenticate_def Let_def)

lemma completions_authenticate:
  "completions (authenticate s (Inr h) rq env) = deliver s (h (authorization_event s rq))"
  by (simp add: authenticate_def Let_def)

section \<open>Completion with a plain value\<close>

text \<open>
  A value that serializes to a string and is not null is answered exactly once, and
  nothing is raised.
\<close>

lemma completion_value_answered_once:
  assumes "classify err result = Value" and "JSON_stringify result \<noteq> None" and "result \<noteq> JNull"
  shows "length (replies (completion s err result)) = 1 \<and> raised (completion s err result) = []"
proof -
  from assms(2,3) have "\<exists>es. onSuccess s err result = Inr es"
    by (auto simp: onSuccess_def Let_def split: option.splits prod.splits)
  then obtain es where es: "onSuccess s err result = Inr es"
    by blast
  then have "raised es = []"
    by (auto simp: onSuccess_def Let_def split: option.splits if_splits prod.splits)
  with es assms(1) show ?thesis
    by (simp add: completion_Value onSuccess_one_reply)
qed

text \<open>
  Claim C1. A completion with no error argument and a result that is neither promise-like
  nor an Error, null and undefined included, is classified as a value, validated as the
  policy and answered with exactly one response, and no error escapes. The callback does
  classify undefined and null as values and does hand them to \<open>onSuccess\<close>; but there
  \<open>JSON.stringify(undefined)\<close> is undefined, so that \<open>jsonPolicy.indexOf\<close> throws, and
  for null the read of \<open>policy.principalId\<close> throws. On the direct path nothing catches
  the exception: it leaves the callback, and no response is made.
\<close>

theorem completion_nullish_result_raises:
  "classify JUndefined JUndefined = Value
   \<and> completion s JUndefined JUndefined = [Raised TypeError_indexOf]
   \<and> replies (completion s JUndefined JUndefined) = []
   \<and> classify JUndefined JNull = Value
   \<and> completion s JUndefined JNull = [Raised TypeError_principalId]
   \<and> replies (completion s JUndefined JNull) = []"
  by (simp add: classify_def completion_def promise_like_def onSuccess_def indexOf_def
      backslash_def dquote_def)

section \<open>The context check\<close>

text \<open>
  Claim C2. For a policy with a string principalId and a context holding a value that is
  not a string, a number or a boolean, the response is an internal error whose message
  names the type of the first such value. The response for
  \<open>{ principalId: "u", context: { bad: {} } }\<close> is an internal error, but its message is
  written between single quotes in the source, not as a template: it is the text
  \<open>Not allowed context key ${keyType}\<close> itself, in which the type \<open>object\<close> of the
  offending value does not occur.
\<close>

theorem context_type_message_literal:
  "replies (completion s JNull policy_bad_context)
     = [Boom 500 ''Not allowed context key ${keyType}'']
   \<and> first_disallowed (own_entries (get_prop policy_bad_context ''context''))
       = Some (''bad'', ''object'')
   \<and> indexOf ''Not allowed context key ${keyType}'' ''object'' = - 1"
  by (simp add: completion_def promise_like_def onSuccess_def indexOf_def
      backslash_def dquote_def policy_bad_context_def QuoteJSONString_def quote_char_def
      allowedTypes_def Boom_badImplementation_def)

section \<open>The identity source\<close>

text \<open>Every string of the specification's grammar is matched, with the token as the group.\<close>

lemma spec_identitySource_accepted:
  assumes "spec_identitySource s"
  shows "identitySource_exec s = Some (drop 22 s)"
proof -
  from assms have "s = ''method.request.header.'' @ drop 22 s"
    by (metis spec_identitySource_def append_take_drop_id)
  then obtain w where w: "s = ''method.request.header.'' @ w" "drop 22 s = w"
    by blast
  with assms have "w \<noteq> []" "list_all word_char w"
    by (simp_all add: spec_identitySource_def)
  then show ?thesis
    unfolding w(2) by (subst w(1))
      (simp add: identitySource_exec_def identitySource_pattern_def line_terminator_def)
qed

text \<open>Construction fails whenever the regular expression does not match.\<close>

lemma createAuthScheme_unmatched_fails:
  assumes "toObjectPopulated af opts = Inr p"
    and "identitySource_exec (identitySource (authorizer p)) = None"
  shows "\<exists>e. createAuthScheme af rt fn ep opts = Inl (JError e)"
  using assms by (simp add: createAuthScheme_def Let_def)

lemma toLowerCase_Authorization: "toLowerCase ''Authorization'' = ''authorization''"
  by code_simp

text \<open>
  Claim C3. Construction fails for every identity source that is not of the exact shape
  \<open>method.request.header.<name>\<close>, and succeeds only for strings of that shape. The dots
  of the source's regular expression are not escaped, so each of them matches any
  character: \<open>method-request-header-Authorization\<close> is not of the shape, and construction
  succeeds on it, with the identity header \<open>authorization\<close>.
\<close>

theorem createAuthScheme_accepts_dashed_identitySource:
  "\<not> spec_identitySource ''method-request-header-Authorization''
   \<and> createAuthScheme dashed_authFun rt fn ep opts =
       Inr \<lparr> authFunName = ''auth'', identityHeader = ''authorization'',
             populatedAuthFun = dashed_populated, funRuntime = rt,
             funName = fn, endpointPath = ep, options = opts \<rparr>"
  by (simp add: spec_identitySource_def createAuthScheme_def dashed_authFun_def
      dashed_populate_def dashed_populated_def identitySource_exec_def
      identitySource_pattern_def line_terminator_def word_char_def
      toLowerCase_Authorization)

section \<open>Several completions of one request\<close>

text \<open>
  Claim C4, as amended. When the completion callback is called more than once for a
  request, every completion is observed: the second and later calls are not ignored, each
  is classified and answered as it would be alone, and the responses of the request are
  counted over all of its completions. (As stated, the claim has only the first completion
  observed and at most one response made.)
\<close>

theorem every_completion_answered:
  "completions (authenticate s (Inr h) rq env) =
      map (\<lambda>(err, result). completion s err result) (h (authorization_event s rq))
   \<and> response_count (authenticate s (Inr h) rq env) =
       sum_list (map (\<lambda>(err, result). length (replies (completion s err result)))
         (h (authorization_event s rq)))"
proof -
  have "sum_list (map (\<lambda>es. length (replies es)) (deliver s cs)) =
      sum_list (map (\<lambda>(err, result). length (replies (completion s err result))) cs)" for cs
    by (induction cs) auto
  then show ?thesis
    by (simp add: response_count_def effects_authenticate completions_authenticate deliver_map)
qed

text \<open>A user function that completes twice with \<open>{ principalId: "user1" }\<close> is answered twice.\<close>

theorem twice_completed_two_responses:
  "\<not> response_count (authenticate example_scheme (Inr twice_handler) example_request []) \<le> 1"
  by (simp add: response_count_def effects_authenticate completions_authenticate
      twice_handler_def completion_def promise_like_def
      onSuccess_def policy_user1_def indexOf_def backslash_def dquote_def QuoteJSONString_def
      quote_char_def)

section \<open>The error argument\<close>

text \<open>
  Claim C5, as amended. When the error argument is truthy, the completion is an error
  whatever the result is: the response is unauthorized (401) with the message
  \<open>Unauthorized\<close>. (As stated, the claim is about every error argument that is not null;
  the source tests \<open>if (err)\<close>.)
\<close>

theorem truthy_error_unauthorized:
  "truthy err \<Longrightarrow>
     classify err result = Error
     \<and> completion s err result = onError s err
     \<and> replies (completion s err result) = [Boom 401 ''Unauthorized'']"
  by (simp add: classify_def completion_def replies_onError)

theorem truthy_error_unauthorized_witness:
  "truthy (JError ''denied'')
   \<and> replies (completion example_scheme (JError ''denied'') policy_user1)
       = [Boom 401 ''Unauthorized'']"
  using truthy_error_unauthorized [of "JError ''denied''" policy_user1 example_scheme]
  by (simp add: replies_onError)

text \<open>
  The empty string is an error argument that is not null, and not truthy: the result is
  validated, and the request continues.
\<close>

theorem empty_error_not_unauthorized:
  "JString [] \<noteq> JNull \<and> JString [] \<noteq> JUndefined
   \<and> replies (completion example_scheme (JString []) policy_user1)
       = [Continue \<lparr> user = JString ''user1'', cred_context = None \<rparr>]"
  by (simp add: completion_def promise_like_def onSuccess_def
      policy_user1_def indexOf_def backslash_def dquote_def QuoteJSONString_def quote_char_def)

section \<open>The escaped-quote check\<close>

lemma indexOf_absent: "indexOf s pat = - 1 \<longleftrightarrow> \<not> sublist pat s"
  by (simp add: indexOf_def indexOf_from_absent)

lemma indexOf_found:
  assumes "sublist pat s"
  shows "\<exists>p. indexOf s pat = int p \<and> prefix pat (drop p s) \<and> (\<forall>q<p. \<not> prefix pat (drop q s))"
  using indexOf_from_found [OF assms, of 0] by (simp add: indexOf_def)

lemma onSuccess_escaped:
  assumes "JSON_stringify policy = Some js" and "indexOf js [backslash, dquote] = int p"
  shows "onSuccess s err policy =
     Inr [Log (''Invalid auth data at position '' @ dec p @ '': '' @ fun_tag s) err,
          Reply (Boom 500 (''Invalid auth data at position '' @ dec p @ ''. Data: '' @ js))]"
  using assms by (simp add: onSuccess_def Boom_badImplementation_def index_toString_def)

lemma dec_27: "dec 27 = ''27''"
  by code_simp


lemma dec_42: "dec 42 = ''42''"
  by code_simp

lemma stringify_policy_escaped: "JSON_stringify policy_escaped = Some policy_escaped_json"
  by (simp add: policy_escaped_def policy_escaped_json_def QuoteJSONString_def quote_char_def
      dquote_def backslash_def dec_42)

lemma indexOf_policy_escaped: "indexOf policy_escaped_json [backslash, dquote] = 27"
  by (simp add: policy_escaped_json_def indexOf_def dquote_def backslash_def)



text \<open>
  Claim C9. For every policy that reaches the value or the resolved branch and whose JSON
  serialization contains a backslash followed by a double quote, the response is an
  internal error whose message carries the position of the first such sequence and the
  serialized policy; nothing is assumed about principalId, which is looked at only later.
\<close>

theorem escaped_quote_internal_error:
  assumes "JSON_stringify policy = Some js" and "sublist [backslash, dquote] js"
  shows "\<exists>p. prefix [backslash, dquote] (drop p js)
           \<and> (\<forall>q<p. \<not> prefix [backslash, dquote] (drop q js))
           \<and> onSuccess s err policy =
               Inr [Log (''Invalid auth data at position '' @ dec p @ '': '' @ fun_tag s) err,
                    Reply (Boom 500
                      (''Invalid auth data at position '' @ dec p @ ''. Data: '' @ js))]
           \<and> (classify err policy = Value \<longrightarrow>
                replies (completion s err policy) =
                  [Boom 500 (''Invalid auth data at position '' @ dec p @ ''. Data: '' @ js)])
           \<and> (\<not> truthy err \<longrightarrow>
                replies (completion s err (JPromise (Fulfilled policy))) =
                  [Boom 500 (''Invalid auth data at position '' @ dec p @ ''. Data: '' @ js)])"
proof -
  from indexOf_found [OF assms(2)] obtain p where
    p: "indexOf js [backslash, dquote] = int p" "prefix [backslash, dquote] (drop p js)"
       "\<forall>q<p. \<not> prefix [backslash, dquote] (drop q js)"
    by blast
  note os = onSuccess_escaped [OF assms(1) p(1), of s err]
  have "classify err policy = Value \<longrightarrow>
      replies (completion s err policy) =
        [Boom 500 (''Invalid auth data at position '' @ dec p @ ''. Data: '' @ js)]"
    by (simp add: completion_Value os)
  moreover have "\<not> truthy err \<longrightarrow>
      replies (completion s err (JPromise (Fulfilled policy))) =
        [Boom 500 (''Invalid auth data at position '' @ dec p @ ''. Data: '' @ js)]"
    by (simp add: completion_Fulfilled os)
  ultimately show ?thesis
    using p(2,3) os by blast
qed

text \<open>
  \<open>{ principalId: 42, note: "a\"b" }\<close>: the sequence is at position 27, and the response
  is the internal error of this check, not that of the principal, which is not a string.
\<close>

theorem escaped_quote_internal_error_witness:
  "JSON_stringify policy_escaped = Some policy_escaped_json
   \<and> sublist [backslash, dquote] policy_escaped_json
   \<and> (\<exists>p. prefix [backslash, dquote] (drop p policy_escaped_json)
          \<and> replies (completion example_scheme JNull policy_escaped) =
              [Boom 500 (''Invalid auth data at position '' @ dec p @ ''. Data: ''
                 @ policy_escaped_json)])
   \<and> replies (completion example_scheme JNull policy_escaped) =
       [Boom 500 (''Invalid auth data at position 27. Data: '' @ policy_escaped_json)]"
proof -
  have sub: "sublist [backslash, dquote] policy_escaped_json"
    using indexOf_absent [of policy_escaped_json "[backslash, dquote]"]
    by (simp add: indexOf_policy_escaped)
  have val: "classify JNull policy_escaped = Value"
    by (simp add: classify_def promise_like_def policy_escaped_def)
  have "replies (completion example_scheme JNull policy_escaped) =
      [Boom 500 (''Invalid auth data at position 27. Data: '' @ policy_escaped_json)]"
    using onSuccess_escaped [OF stringify_policy_escaped, of 27 example_scheme JNull]
    by (simp add: completion_Value val indexOf_policy_escaped dec_27)
  with escaped_quote_internal_error [OF stringify_policy_escaped sub, of example_scheme JNull]
    stringify_policy_escaped sub val
  show ?thesis by auto
qed

section \<open>Quotes inside the strings of a valid policy\<close>






section \<open>The checks of principalId\<close>




section \<open>A promise as the result\<close>



section \<open>The authorization event\<close>



end
